theory Spec2Isabelle
  imports Main
begin

section \<open>Remote Object Client\<close>

text \<open>
  The vendor SDK is an external collaborator. A call returns a payload together with the
  transport metadata \<open>resp\<close> and an error \<open>err\<close>. A failed call is an \<open>sdkError\<close>:
  \<open>errResp\<close> is the HTTP status of \<open>resp\<close> (\<open>None\<close> when \<open>resp\<close> is nil) and
  \<open>errMsg\<close> is what \<open>%s\<close> prints for \<open>err\<close>.
\<close>

datatype sdkError = SdkError (errResp: "int option") (errMsg: string)

text \<open>
  Payloads. The SDK types have many more attributes, which the resource files copy one
  by one between payload and resource data; the records keep the identifier, the name
  and the attributes the lifecycle functions branch on or stamp (active flag, version,
  ring number), with one or two ordinary attributes standing for the rest.
\<close>

record Queuemember =
  qm_Id :: string
  qm_RingNumber :: int

record Queue =
  q_Name :: string
  q_DivisionId :: string
  q_Description :: "string option"

record Journeysegment =
  seg_Id :: string
  seg_IsActive :: "bool option"
  seg_DisplayName :: string
  seg_Version :: int
  seg_Description :: "string option"

record Patchsegment =
  ps_IsActive :: bool
  ps_DisplayName :: string
  ps_Version :: int
  ps_Description :: string

record Actionmap =
  am_Id :: string
  am_IsActive :: bool
  am_DisplayName :: string
  am_Version :: "int option"
  am_Weight :: int

record Patchactionmap =
  pam_IsActive :: bool
  pam_DisplayName :: string
  pam_Version :: "int option"
  pam_Weight :: int

text \<open>An entity listing page: \<open>Entities\<close> and \<open>PageCount\<close> are pointers in the SDK.\<close>

record 'a listing =
  Entities :: "'a list option"
  PageCount :: "int option"

text \<open>Every remote call is recorded, with its arguments, in the order it was issued.\<close>

datatype request =
    Req_GetRoutingQueue string
  | Req_DeleteRoutingQueue string bool
  | Req_GetRoutingQueueMembers string int int
  | Req_PostRoutingQueueMembers string "string list" bool
  | Req_PatchRoutingQueueMember string string int
  | Req_GetJourneySegments int int
  | Req_GetJourneySegment string
  | Req_PatchJourneySegment string Patchsegment
  | Req_DeleteJourneySegment string
  | Req_GetJourneyActionmaps int int
  | Req_GetJourneyActionmap string
  | Req_PatchJourneyActionmap string Patchactionmap
  | Req_DeleteJourneyActionmap string

text \<open>
  The remote system is arbitrary: each answer may depend on the whole history of requests
  issued before it (the first argument) and on the arguments of the call.
\<close>

record platform =
  on_GetRoutingQueue :: "request list \<Rightarrow> string \<Rightarrow> sdkError + Queue"
  on_DeleteRoutingQueue :: "request list \<Rightarrow> string \<Rightarrow> bool \<Rightarrow> sdkError option"
  on_GetRoutingQueueMembers ::
    "request list \<Rightarrow> string \<Rightarrow> int \<Rightarrow> int \<Rightarrow> sdkError + Queuemember listing option"
  on_PostRoutingQueueMembers ::
    "request list \<Rightarrow> string \<Rightarrow> string list \<Rightarrow> bool \<Rightarrow> sdkError option"
  on_PatchRoutingQueueMember ::
    "request list \<Rightarrow> string \<Rightarrow> string \<Rightarrow> int \<Rightarrow> sdkError option"
  on_GetJourneySegments :: "request list \<Rightarrow> int \<Rightarrow> int \<Rightarrow> sdkError + Journeysegment listing"
  on_GetJourneySegment :: "request list \<Rightarrow> string \<Rightarrow> sdkError + Journeysegment"
  on_PatchJourneySegment :: "request list \<Rightarrow> string \<Rightarrow> Patchsegment \<Rightarrow> sdkError option"
  on_DeleteJourneySegment :: "request list \<Rightarrow> string \<Rightarrow> sdkError option"
  on_GetJourneyActionmaps :: "request list \<Rightarrow> int \<Rightarrow> int \<Rightarrow> sdkError + Actionmap listing"
  on_GetJourneyActionmap :: "request list \<Rightarrow> string \<Rightarrow> sdkError + Actionmap"
  on_PatchJourneyActionmap :: "request list \<Rightarrow> string \<Rightarrow> Patchactionmap \<Rightarrow> sdkError option"
  on_DeleteJourneyActionmap :: "request list \<Rightarrow> string \<Rightarrow> sdkError option"

definition GetRoutingQueue ::
  "platform \<Rightarrow> string \<Rightarrow> request list \<Rightarrow> (sdkError + Queue) \<times> request list" where
  "GetRoutingQueue api queueId tr =
     (on_GetRoutingQueue api tr queueId, tr @ [Req_GetRoutingQueue queueId])"

definition DeleteRoutingQueue ::
  "platform \<Rightarrow> string \<Rightarrow> bool \<Rightarrow> request list \<Rightarrow> sdkError option \<times> request list" where
  "DeleteRoutingQueue api queueId forceDelete tr =
     (on_DeleteRoutingQueue api tr queueId forceDelete,
      tr @ [Req_DeleteRoutingQueue queueId forceDelete])"

definition sdkGetRoutingQueueMembers ::
  "platform \<Rightarrow> string \<Rightarrow> int \<Rightarrow> int \<Rightarrow> request list
     \<Rightarrow> (sdkError + Queuemember listing option) \<times> request list" where
  "sdkGetRoutingQueueMembers api queueID pageNumber pageSize tr =
     (on_GetRoutingQueueMembers api tr queueID pageNumber pageSize,
      tr @ [Req_GetRoutingQueueMembers queueID pageNumber pageSize])"

definition PostRoutingQueueMembers ::
  "platform \<Rightarrow> string \<Rightarrow> string list \<Rightarrow> bool \<Rightarrow> request list
     \<Rightarrow> sdkError option \<times> request list" where
  "PostRoutingQueueMembers api queueId body doDelete tr =
     (on_PostRoutingQueueMembers api tr queueId body doDelete,
      tr @ [Req_PostRoutingQueueMembers queueId body doDelete])"

definition PatchRoutingQueueMember ::
  "platform \<Rightarrow> string \<Rightarrow> string \<Rightarrow> int \<Rightarrow> request list \<Rightarrow> sdkError option \<times> request list" where
  "PatchRoutingQueueMember api queueId memberId ringNumber tr =
     (on_PatchRoutingQueueMember api tr queueId memberId ringNumber,
      tr @ [Req_PatchRoutingQueueMember queueId memberId ringNumber])"


definition GetJourneySegment ::
  "platform \<Rightarrow> string \<Rightarrow> request list \<Rightarrow> (sdkError + Journeysegment) \<times> request list" where
  "GetJourneySegment api segmentId tr =
     (on_GetJourneySegment api tr segmentId, tr @ [Req_GetJourneySegment segmentId])"

definition PatchJourneySegment ::
  "platform \<Rightarrow> string \<Rightarrow> Patchsegment \<Rightarrow> request list \<Rightarrow> sdkError option \<times> request list" where
  "PatchJourneySegment api segmentId body tr =
     (on_PatchJourneySegment api tr segmentId body, tr @ [Req_PatchJourneySegment segmentId body])"

definition DeleteJourneySegment ::
  "platform \<Rightarrow> string \<Rightarrow> request list \<Rightarrow> sdkError option \<times> request list" where
  "DeleteJourneySegment api segmentId tr =
     (on_DeleteJourneySegment api tr segmentId, tr @ [Req_DeleteJourneySegment segmentId])"


definition GetJourneyActionmap ::
  "platform \<Rightarrow> string \<Rightarrow> request list \<Rightarrow> (sdkError + Actionmap) \<times> request list" where
  "GetJourneyActionmap api actionMapId tr =
     (on_GetJourneyActionmap api tr actionMapId, tr @ [Req_GetJourneyActionmap actionMapId])"


definition DeleteJourneyActionmap ::
  "platform \<Rightarrow> string \<Rightarrow> request list \<Rightarrow> sdkError option \<times> request list" where
  "DeleteJourneyActionmap api actionMapId tr =
     (on_DeleteJourneyActionmap api tr actionMapId, tr @ [Req_DeleteJourneyActionmap actionMapId])"

section \<open>Resource data\<close>

text \<open>
  \<open>schema.ResourceData\<close> with the attributes the lifecycle functions below consult. The
  schema fixes the type of every attribute, so each is a typed field. \<open>d_members\<close> is what
  \<open>d.GetOk("members")\<close> yields: \<open>None\<close> when the attribute is not set, otherwise the
  \<open>(user_id, ring_num)\<close> entries of the set in the order \<open>Set.List()\<close> returns them.
  \<open>d_timeoutDelete\<close> is \<open>d.Timeout(schema.TimeoutDelete)\<close>. Durations are counted in
  nanoseconds, as \<open>time.Duration\<close> does.
\<close>

record ResourceData =
  d_Id :: string
  d_name :: string
  d_division_id :: string
  d_description :: string
  d_members :: "(string \<times> int) list option"
  d_display_name :: string
  d_version :: int
  d_is_active :: bool
  d_weight :: int
  d_timeoutDelete :: nat

definition Second :: nat where
  "Second = 1000000000"

section \<open>Retry Engine\<close>

text \<open>\<open>*resource.RetryError\<close>: nil is \<open>None\<close>.\<close>

datatype retryError = RetryableError string | NonRetryableError string

text \<open>\<open>diag.Diagnostics\<close>: nil (success) is \<open>None\<close>, an error carries its message.\<close>

type_synonym diagnostics = "string option"

text \<open>
  What the provider process supplies to the lifecycle functions besides the SDK: the
  parts of this repository and of the plugin framework that the resource files call but
  do not contain.
  \<^item> \<open>pollInterval\<close>: the fixed interval, in nanoseconds, at which the Retry Engine polls;
  \<^item> \<open>readTimeout\<close>: the deadline \<open>withRetriesForRead\<close> gives a read;
  \<^item> \<open>retryWhenLimit\<close>: how many times \<open>retryWhen\<close> may repeat a call;
  \<^item> \<open>isVersionMismatch\<close>: the classifier of version-conflict responses;
  \<^item> \<open>CheckState\<close>: the Consistency Checker, given the state captured by
    \<open>NewConsistencyCheck\<close> and the state after flattening;
  \<^item> \<open>rangeOrder\<close>: the order in which the Go runtime ranges over the keys of a map;
  \<^item> \<open>interfaceToJson\<close> and \<open>getBody\<close>: the helpers that print a request payload and
    the body of a response into an error message.
\<close>

record runtime =
  pollInterval :: nat
  readTimeout :: nat
  retryWhenLimit :: nat
  isVersionMismatch :: "int option \<Rightarrow> bool"
  CheckState :: "ResourceData \<Rightarrow> ResourceData \<Rightarrow> retryError option"
  rangeOrder :: "string list \<Rightarrow> string list"
  interfaceToJson :: "Patchactionmap \<Rightarrow> string"
  getBody :: "int option \<Rightarrow> string"

text \<open>
  Modelled from the spec: \<open>isStatus404\<close> is not among the source files. The spec's
  classification rules speak of "HTTP 404" on the transport metadata of a read.
\<close>

definition isStatus404 :: "int option \<Rightarrow> bool" where
  "isStatus404 resp = (resp = Some 404)"

text \<open>
  Modelled from the spec: the Retry Engine (\<open>withRetries\<close> and \<open>withRetriesForRead\<close> are
  not among the source files; \<open>resource.RetryContext\<close> belongs to the plugin framework).
  Spec 4.1: the engine invokes \<open>operation\<close> and re-invokes it on RetryableFailure, at a
  fixed polling interval, until Success, TerminalFailure or the deadline has elapsed; on
  deadline elapsed with the last failure still retryable it returns a TerminalFailure
  wrapping the last reason. \<open>retryLoop n\<close> is the engine with \<open>n\<close> polling intervals left
  before the deadline: the first attempt is made at once, each further attempt one
  interval later.
\<close>

text \<open>
  Modelled from the spec: the TerminalFailure "wrapping the last reason" that the engine
  returns when the deadline has elapsed (its wording is not in the source files).
\<close>

definition timeoutError :: "string \<Rightarrow> string" where
  "timeoutError reason = ''deadline elapsed, last error: '' @ reason"

text \<open>
  Modelled from the spec: the polling loop of the Retry Engine, spec 4.1, with \<open>n\<close>
  polling intervals left before the deadline.
\<close>

fun retryLoop ::
  "nat \<Rightarrow> ('s \<Rightarrow> retryError option \<times> 's) \<Rightarrow> 's \<Rightarrow> diagnostics \<times> 's" where
  "retryLoop 0 operation s =
     (case operation s of
        (None, s') \<Rightarrow> (None, s')
      | (Some (NonRetryableError reason), s') \<Rightarrow> (Some reason, s')
      | (Some (RetryableError reason), s') \<Rightarrow> (Some (timeoutError reason), s'))"
| "retryLoop (Suc n) operation s =
     (case operation s of
        (None, s') \<Rightarrow> (None, s')
      | (Some (NonRetryableError reason), s') \<Rightarrow> (Some reason, s')
      | (Some (RetryableError reason), s') \<Rightarrow> retryLoop n operation s')"

text \<open>
  Modelled from the spec: \<open>resource.RetryContext\<close> of the plugin framework, as the Retry
  Engine of spec 4.1 with the deadline \<open>timeout\<close>.
\<close>

definition RetryContext ::
  "runtime \<Rightarrow> nat \<Rightarrow> ('s \<Rightarrow> retryError option \<times> 's) \<Rightarrow> 's \<Rightarrow> diagnostics \<times> 's" where
  "RetryContext rt timeout f s = retryLoop (timeout div pollInterval rt) f s"

text \<open>
  Modelled from the spec: \<open>withRetries\<close>, not among the source files; spec 4.1,
  \<open>retry(deadline, operation)\<close>.
\<close>

definition withRetries ::
  "runtime \<Rightarrow> nat \<Rightarrow> ('s \<Rightarrow> retryError option \<times> 's) \<Rightarrow> 's \<Rightarrow> diagnostics \<times> 's" where
  "withRetries rt timeout method s = RetryContext rt timeout method s"

text \<open>
  Modelled from the spec: \<open>withRetriesForRead\<close>, not among the source files; spec 4.3,
  Read is "wrapped in Retry Engine", with the shorter deadline of spec 4.1 for reads.
\<close>

definition withRetriesForRead ::
  "runtime \<Rightarrow> ('s \<Rightarrow> retryError option \<times> 's) \<Rightarrow> 's \<Rightarrow> diagnostics \<times> 's" where
  "withRetriesForRead rt method s = withRetries rt (readTimeout rt) method s"

section \<open>Journey segments\<close>

text \<open>The closure \<open>deleteJourneySegment\<close> hands to \<open>withRetries\<close>: one poll.\<close>

definition deleteJourneySegment_poll ::
  "platform \<Rightarrow> ResourceData \<Rightarrow> request list \<Rightarrow> retryError option \<times> request list" where
  "deleteJourneySegment_poll api d tr =
     (case GetJourneySegment api (d_Id d) tr of
        (Inl err, tr') \<Rightarrow>
          if isStatus404 (errResp err) then (None, tr')
          else (Some (NonRetryableError
                  (''error deleting journey segment '' @ d_Id d @ '': '' @ errMsg err)), tr')
      | (Inr journeySegment, tr') \<Rightarrow>
          if seg_IsActive journeySegment = Some False then (None, tr')
          else (Some (RetryableError (''journey segment '' @ d_Id d @ '' still exists'')), tr'))"

definition deleteJourneySegment ::
  "runtime \<Rightarrow> platform \<Rightarrow> ResourceData \<Rightarrow> request list \<Rightarrow> diagnostics \<times> request list" where
  "deleteJourneySegment rt api d tr =
     (case DeleteJourneySegment api (d_Id d) tr of
        (Some err, tr') \<Rightarrow>
          (Some (''Failed to delete journey segment with display name '' @ d_display_name d
                   @ '': '' @ errMsg err), tr')
      | (None, tr') \<Rightarrow> withRetries rt (30 * Second) (deleteJourneySegment_poll api d) tr')"

text \<open>
  \<open>flattenJourneySegment\<close> copies the attributes of the payload into the resource data;
  \<open>setNullableValue\<close> stores the zero value for a nil pointer.
\<close>

definition flattenJourneySegment :: "ResourceData \<Rightarrow> Journeysegment \<Rightarrow> ResourceData" where
  "flattenJourneySegment d journeySegment =
     d\<lparr>d_display_name := seg_DisplayName journeySegment,
       d_version := seg_Version journeySegment,
       d_description := (case seg_Description journeySegment of None \<Rightarrow> [] | Some v \<Rightarrow> v)\<rparr>"

definition buildSdkPatchSegment :: "ResourceData \<Rightarrow> Patchsegment" where
  "buildSdkPatchSegment journeySegment =
     \<lparr>ps_IsActive = d_is_active journeySegment,
      ps_DisplayName = d_display_name journeySegment,
      ps_Version = d_version journeySegment,
      ps_Description = d_description journeySegment\<rparr>"

text \<open>The closure \<open>readJourneySegment\<close> hands to \<open>withRetriesForRead\<close>: one read attempt.\<close>

definition readJourneySegment_attempt ::
  "runtime \<Rightarrow> platform \<Rightarrow> ResourceData \<times> request list
     \<Rightarrow> retryError option \<times> ResourceData \<times> request list" where
  "readJourneySegment_attempt rt api s =
     (case s of (d, tr) \<Rightarrow>
       (case GetJourneySegment api (d_Id d) tr of
          (Inl getErr, tr') \<Rightarrow>
            if isStatus404 (errResp getErr)
            then (Some (RetryableError
                    (''failed to read journey segment '' @ d_Id d @ '': '' @ errMsg getErr)),
                  d, tr')
            else (Some (NonRetryableError
                    (''failed to read journey segment '' @ d_Id d @ '': '' @ errMsg getErr)),
                  d, tr')
        | (Inr journeySegment, tr') \<Rightarrow>
            if seg_IsActive journeySegment = Some False then (None, d\<lparr>d_Id := []\<rparr>, tr')
            else (CheckState rt d (flattenJourneySegment d journeySegment),
                  flattenJourneySegment d journeySegment, tr')))"

definition readJourneySegment ::
  "runtime \<Rightarrow> platform \<Rightarrow> ResourceData \<Rightarrow> request list
     \<Rightarrow> diagnostics \<times> ResourceData \<times> request list" where
  "readJourneySegment rt api d tr =
     withRetriesForRead rt (readJourneySegment_attempt rt api) (d, tr)"

text \<open>
  In \<open>updateJourneySegment\<close> the message formats \<open>journeySegment.DisplayName\<close>, a
  \<open>*string\<close>, with \<open>%s\<close>: the text printed is the pointer, not the display name.
\<close>

definition fmtStringPointer :: string where
  "fmtStringPointer = ''%!s(*string=0x)''"

definition updateJourneySegment ::
  "runtime \<Rightarrow> platform \<Rightarrow> ResourceData \<Rightarrow> request list
     \<Rightarrow> diagnostics \<times> ResourceData \<times> request list" where
  "updateJourneySegment rt api d tr =
     (case PatchJourneySegment api (d_Id d) (buildSdkPatchSegment d) tr of
        (Some err, tr') \<Rightarrow>
          (Some (''Error updating journey segment '' @ fmtStringPointer @ '': '' @ errMsg err),
           d, tr')
      | (None, tr') \<Rightarrow> readJourneySegment rt api d tr')"




section \<open>Journey action maps\<close>





definition flattenActionMap :: "ResourceData \<Rightarrow> Actionmap \<Rightarrow> ResourceData" where
  "flattenActionMap d actionMap =
     d\<lparr>d_is_active := am_IsActive actionMap,
       d_display_name := am_DisplayName actionMap,
       d_weight := am_Weight actionMap\<rparr>"


definition readJourneyActionMap_attempt ::
  "runtime \<Rightarrow> platform \<Rightarrow> ResourceData \<times> request list
     \<Rightarrow> retryError option \<times> ResourceData \<times> request list" where
  "readJourneyActionMap_attempt rt api s =
     (case s of (d, tr) \<Rightarrow>
       (case GetJourneyActionmap api (d_Id d) tr of
          (Inl getErr, tr') \<Rightarrow>
            if isStatus404 (errResp getErr)
            then (Some (RetryableError
                    (''failed to read journey action map '' @ d_Id d @ '': '' @ errMsg getErr)),
                  d, tr')
            else (Some (NonRetryableError
                    (''failed to read journey action map '' @ d_Id d @ '': '' @ errMsg getErr)),
                  d, tr')
        | (Inr actionMap, tr') \<Rightarrow>
            (CheckState rt d (flattenActionMap d actionMap), flattenActionMap d actionMap, tr')))"






definition deleteJourneyActionMap_poll ::
  "platform \<Rightarrow> ResourceData \<Rightarrow> request list \<Rightarrow> retryError option \<times> request list" where
  "deleteJourneyActionMap_poll api d tr =
     (case GetJourneyActionmap api (d_Id d) tr of
        (Inl err, tr') \<Rightarrow>
          if isStatus404 (errResp err) then (None, tr')
          else (Some (NonRetryableError
                  (''error deleting journey action map '' @ d_Id d @ '': '' @ errMsg err)), tr')
      | (Inr actionMap, tr') \<Rightarrow>
          (Some (RetryableError (''journey action map '' @ d_Id d @ '' still exists'')), tr'))"

definition deleteJourneyActionMap ::
  "runtime \<Rightarrow> platform \<Rightarrow> ResourceData \<Rightarrow> request list \<Rightarrow> diagnostics \<times> request list" where
  "deleteJourneyActionMap rt api d tr =
     (case DeleteJourneyActionmap api (d_Id d) tr of
        (Some err, tr') \<Rightarrow>
          (Some (''Failed to delete journey action map with display name '' @ d_display_name d
                   @ '': '' @ errMsg err), tr')
      | (None, tr') \<Rightarrow> withRetries rt (30 * Second) (deleteJourneyActionMap_poll api d) tr')"

section \<open>Routing queues\<close>

definition deleteQueue_poll ::
  "platform \<Rightarrow> ResourceData \<Rightarrow> request list \<Rightarrow> retryError option \<times> request list" where
  "deleteQueue_poll api d tr =
     (case GetRoutingQueue api (d_Id d) tr of
        (Inl err, tr') \<Rightarrow>
          if errResp err \<noteq> None \<and> errResp err = Some 404 then (None, tr')
          else (Some (NonRetryableError
                  (''Error deleting queue '' @ d_Id d @ '': '' @ errMsg err)), tr')
      | (Inr currentQueue, tr') \<Rightarrow>
          (Some (RetryableError (''Queue '' @ d_Id d @ '' still exists'')), tr'))"

definition deleteQueue ::
  "runtime \<Rightarrow> platform \<Rightarrow> ResourceData \<Rightarrow> request list \<Rightarrow> diagnostics \<times> request list" where
  "deleteQueue rt api d tr =
     (case DeleteRoutingQueue api (d_Id d) True tr of
        (Some err, tr') \<Rightarrow>
          (Some (''Failed to delete queue '' @ d_name d @ '': '' @ errMsg err), tr')
      | (None, tr') \<Rightarrow> RetryContext rt (d_timeoutDelete d) (deleteQueue_poll api d) tr')"

text \<open>
  \<open>getRoutingQueueMembers\<close>: \<open>for pageNum := 1; ; pageNum++\<close>, again without a bound of its
  own.
\<close>

partial_function (option) getRoutingQueueMembers_loop ::
  "platform \<Rightarrow> string \<Rightarrow> int \<Rightarrow> Queuemember list \<Rightarrow> request list
     \<Rightarrow> ((string + Queuemember list) \<times> request list) option" where
  "getRoutingQueueMembers_loop api queueID pageNum members tr =
     (case sdkGetRoutingQueueMembers api queueID pageNum 100 tr of
        (Inl err, tr') \<Rightarrow>
          Some (Inl (''Failed to query users for queue '' @ queueID @ '': '' @ errMsg err), tr')
      | (Inr users, tr') \<Rightarrow>
          (case users of
             None \<Rightarrow> Some (Inr members, tr')
           | Some page \<Rightarrow>
               (case Entities page of
                  None \<Rightarrow> Some (Inr members, tr')
                | Some ents \<Rightarrow>
                    if length ents = 0 then Some (Inr members, tr')
                    else getRoutingQueueMembers_loop api queueID (pageNum + 1)
                           (members @ ents) tr')))"

definition getRoutingQueueMembers ::
  "platform \<Rightarrow> string \<Rightarrow> request list
     \<Rightarrow> ((string + Queuemember list) \<times> request list) option" where
  "getRoutingQueueMembers api queueID tr = getRoutingQueueMembers_loop api queueID 1 [] tr"

text \<open>
  \<open>flattenQueueMembers\<close> collects the members into a \<open>schema.Set\<close> of
  \<open>(user_id, ring_num)\<close> entries.
\<close>

definition flattenQueueMembers ::
  "platform \<Rightarrow> string \<Rightarrow> request list
     \<Rightarrow> ((string + (string \<times> int) list) \<times> request list) option" where
  "flattenQueueMembers api queueID tr =
     (case getRoutingQueueMembers api queueID tr of
        None \<Rightarrow> None
      | Some (Inl err, tr') \<Rightarrow> Some (Inl err, tr')
      | Some (Inr members, tr') \<Rightarrow>
          Some (Inr (remdups (map (\<lambda>member. (qm_Id member, qm_RingNumber member)) members)),
                tr'))"

text \<open>
  \<open>readQueue\<close> is not wrapped in the Retry Engine: a failed \<open>GetRoutingQueue\<close> is returned
  at once. The attributes of the payload are copied into the resource data (a nil
  description is skipped), then the members are listed.
\<close>

definition readQueue ::
  "platform \<Rightarrow> ResourceData \<Rightarrow> request list
     \<Rightarrow> (diagnostics \<times> ResourceData \<times> request list) option" where
  "readQueue api d tr =
     (case GetRoutingQueue api (d_Id d) tr of
        (Inl getErr, tr') \<Rightarrow>
          Some (Some (''Failed to read user '' @ d_Id d @ '': '' @ errMsg getErr), d, tr')
      | (Inr currentQueue, tr') \<Rightarrow>
          (let d1 = d\<lparr>d_name := q_Name currentQueue,
                      d_division_id := q_DivisionId currentQueue\<rparr>;
               d2 = (case q_Description currentQueue of
                       None \<Rightarrow> d1
                     | Some v \<Rightarrow> d1\<lparr>d_description := v\<rparr>)
           in (case flattenQueueMembers api (d_Id d) tr' of
                 None \<Rightarrow> None
               | Some (Inl err, tr'') \<Rightarrow> Some (Some err, d2, tr'')
               | Some (Inr members, tr'') \<Rightarrow>
                   Some (None, d2\<lparr>d_members := Some members\<rparr>, tr''))))"

subsection \<open>Membership reconciliation\<close>

text \<open>
  Modelled from the spec: \<open>sliceDifference\<close> is not among the source files. Spec 4.3:
  "compute set difference between Desired and Observed membership lists";
  \<open>sliceDifference a b\<close> keeps the elements of \<open>a\<close> that are not in \<open>b\<close>.
\<close>

definition sliceDifference :: "string list \<Rightarrow> string list \<Rightarrow> string list" where
  "sliceDifference a b = filter (\<lambda>x. x \<notin> set b) a"

text \<open>
  \<open>platformclientv2.Writableentity\<close> holds \<open>Id *string\<close>, a pointer. In
  \<open>updateMembersInChunks\<close> the pointer is \<open>&id\<close>, the address of the variable of the
  range clause \<open>for _, id := range membersToUpdate[i:end]\<close>. A range clause with \<open>:=\<close>
  declares its variable once for the loop and assigns it again on every iteration; a
  variable per iteration exists only in modules that declare Go 1.22 or later, and this
  file, which imports the SDK by its first, unversioned module path, predates that by
  years. So the store is explicit: variables live at addresses, an entity holds an
  address, and the ids of a request body are read through the addresses when the call
  is made, after the loop.
\<close>

type_synonym addr = nat

record heap =
  nextFree :: addr
  cell :: "addr \<Rightarrow> string"

definition emptyHeap :: heap where
  "emptyHeap = \<lparr>nextFree = 0, cell = (\<lambda>a. [])\<rparr>"

definition newVar :: "heap \<Rightarrow> addr \<times> heap" where
  "newVar h = (nextFree h, h\<lparr>nextFree := Suc (nextFree h)\<rparr>)"

record Writableentity =
  we_Id :: addr

text \<open>
  The range loop, with \<open>id\<close> at address \<open>idVar\<close>: assign the element to \<open>id\<close>, append
  \<open>Writableentity{Id: &id}\<close>.
\<close>

fun rangeAppend ::
  "addr \<Rightarrow> string list \<Rightarrow> heap \<Rightarrow> Writableentity list \<Rightarrow> heap \<times> Writableentity list" where
  "rangeAppend idVar [] h updateChunk = (h, updateChunk)"
| "rangeAppend idVar (x # xs) h updateChunk =
     rangeAppend idVar xs (h\<lparr>cell := (cell h)(idVar := x)\<rparr>)
       (updateChunk @ [\<lparr>we_Id = idVar\<rparr>])"

text \<open>The ids the serialised body of a request carries: each pointer is dereferenced.\<close>

definition bodyIds :: "heap \<Rightarrow> Writableentity list \<Rightarrow> string list" where
  "bodyIds h updateChunk = map (\<lambda>e. cell h (we_Id e)) updateChunk"

definition maxBatchSize :: nat where
  "maxBatchSize = 100"

text \<open>
  \<open>updateMembersInChunks\<close>: \<open>for i := 0; i < len(membersToUpdate); i += maxBatchSize\<close>.
  The result of \<open>PostRoutingQueueMembers\<close> is dropped (the source comments the check out).
\<close>

function updateMembersInChunks_loop ::
  "platform \<Rightarrow> string \<Rightarrow> string list \<Rightarrow> bool \<Rightarrow> nat \<Rightarrow> heap \<Rightarrow> request list
     \<Rightarrow> diagnostics \<times> request list" where
  "updateMembersInChunks_loop api queueID membersToUpdate remove i h tr =
     (if i < length membersToUpdate then
        (let endIdx = (if i + maxBatchSize > length membersToUpdate
                       then length membersToUpdate else i + maxBatchSize);
             var = newVar h;
             built = rangeAppend (fst var) (take (endIdx - i) (drop i membersToUpdate))
                       (snd var) [];
             tr' = (if length (snd built) > 0
                    then snd (PostRoutingQueueMembers api queueID
                                (bodyIds (fst built) (snd built)) remove tr)
                    else tr)
         in updateMembersInChunks_loop api queueID membersToUpdate remove
              (i + maxBatchSize) (fst built) tr')
      else (None, tr))"
  by pat_completeness auto
termination
  by (relation "measure (\<lambda>(api, queueID, membersToUpdate, remove, i, h, tr).
                           length membersToUpdate - i)")
     (auto simp: maxBatchSize_def)

declare updateMembersInChunks_loop.simps [simp del]

definition updateMembersInChunks ::
  "platform \<Rightarrow> string \<Rightarrow> string list \<Rightarrow> bool \<Rightarrow> request list \<Rightarrow> diagnostics \<times> request list" where
  "updateMembersInChunks api queueID membersToUpdate remove tr =
     updateMembersInChunks_loop api queueID membersToUpdate remove 0 emptyHeap tr"

definition updateQueueUserRingNum ::
  "platform \<Rightarrow> string \<Rightarrow> string \<Rightarrow> int \<Rightarrow> request list \<Rightarrow> diagnostics \<times> request list" where
  "updateQueueUserRingNum api queueID userID ringNum tr =
     (case PatchRoutingQueueMember api queueID userID ringNum tr of
        (Some err, tr') \<Rightarrow>
          (Some (''Failed to update ring number for queue '' @ queueID @ '' user '' @ userID
                   @ '': '' @ errMsg err), tr')
      | (None, tr') \<Rightarrow> (None, tr'))"

text \<open>
  The loop \<open>for userID, newNum := range newUserRingNums\<close>, over the keys in the order the
  runtime yields them.
\<close>

fun ringNumLoop ::
  "platform \<Rightarrow> string \<Rightarrow> (string \<rightharpoonup> int) \<Rightarrow> (string \<rightharpoonup> int) \<Rightarrow> string list \<Rightarrow> request list
     \<Rightarrow> diagnostics \<times> request list" where
  "ringNumLoop api queueID newUserRingNums oldUserRingNums [] tr = (None, tr)"
| "ringNumLoop api queueID newUserRingNums oldUserRingNums (userID # rest) tr =
     (case newUserRingNums userID of
        None \<Rightarrow> ringNumLoop api queueID newUserRingNums oldUserRingNums rest tr
      | Some newNum \<Rightarrow>
          (case oldUserRingNums userID of
             Some oldNum \<Rightarrow>
               if newNum \<noteq> oldNum then
                 (case updateQueueUserRingNum api queueID userID newNum tr of
                    (Some err, tr') \<Rightarrow> (Some err, tr')
                  | (None, tr') \<Rightarrow>
                      ringNumLoop api queueID newUserRingNums oldUserRingNums rest tr')
               else ringNumLoop api queueID newUserRingNums oldUserRingNums rest tr
           | None \<Rightarrow>
               if newNum \<noteq> 1 then
                 (case updateQueueUserRingNum api queueID userID newNum tr of
                    (Some err, tr') \<Rightarrow> (Some err, tr')
                  | (None, tr') \<Rightarrow>
                      ringNumLoop api queueID newUserRingNums oldUserRingNums rest tr')
               else ringNumLoop api queueID newUserRingNums oldUserRingNums rest tr))"

definition memberRingNums :: "(string \<times> int) list \<Rightarrow> (string \<rightharpoonup> int)" where
  "memberRingNums memberList = fold (\<lambda>member m. m(fst member \<mapsto> snd member)) memberList Map.empty"

definition updateQueueMembers ::
  "runtime \<Rightarrow> platform \<Rightarrow> ResourceData \<Rightarrow> request list
     \<Rightarrow> (diagnostics \<times> request list) option" where
  "updateQueueMembers rt api d tr =
     (case d_members d of
        None \<Rightarrow> Some (None, tr)
      | Some memberList \<Rightarrow>
          (let newUserIds = map fst memberList;
               newUserRingNums = memberRingNums memberList
           in (case getRoutingQueueMembers api (d_Id d) tr of
                 None \<Rightarrow> None
               | Some (Inl err, tr1) \<Rightarrow> Some (Some err, tr1)
               | Some (Inr oldSdkUsers, tr1) \<Rightarrow>
                   (let oldUserIds = map qm_Id oldSdkUsers;
                        oldUserRingNums =
                          memberRingNums
                            (map (\<lambda>user. (qm_Id user, qm_RingNumber user)) oldSdkUsers);
                        removed =
                          (if length oldUserIds > 0
                           then updateMembersInChunks api (d_Id d)
                                  (sliceDifference oldUserIds newUserIds) True tr1
                           else (None, tr1))
                    in (case removed of
                          (Some err, tr2) \<Rightarrow> Some (Some err, tr2)
                        | (None, tr2) \<Rightarrow>
                            (let added =
                                   (if length newUserIds > 0
                                    then updateMembersInChunks api (d_Id d)
                                           (sliceDifference newUserIds oldUserIds) False tr2
                                    else (None, tr2))
                             in (case added of
                                   (Some err, tr3) \<Rightarrow> Some (Some err, tr3)
                                 | (None, tr3) \<Rightarrow>
                                     Some (ringNumLoop api (d_Id d) newUserRingNums
                                             oldUserRingNums
                                             (rangeOrder rt (remdups newUserIds)) tr3))))))))"

section \<open>Histories and scenarios\<close>

text \<open>
  The history of requests once a delete has been issued (after the history \<open>tr\<close>) and
  \<open>j\<close> confirmation reads have followed it.
\<close>

definition queuePolls :: "request list \<Rightarrow> string \<Rightarrow> nat \<Rightarrow> request list" where
  "queuePolls tr queueId j =
     tr @ Req_DeleteRoutingQueue queueId True # replicate j (Req_GetRoutingQueue queueId)"

definition segmentPolls :: "request list \<Rightarrow> string \<Rightarrow> nat \<Rightarrow> request list" where
  "segmentPolls tr segmentId j =
     tr @ Req_DeleteJourneySegment segmentId # replicate j (Req_GetJourneySegment segmentId)"

definition actionMapPolls :: "request list \<Rightarrow> string \<Rightarrow> nat \<Rightarrow> request list" where
  "actionMapPolls tr actionMapId j =
     tr @ Req_DeleteJourneyActionmap actionMapId
        # replicate j (Req_GetJourneyActionmap actionMapId)"

text \<open>A confirmation read that finds the segment present and not inactive.\<close>

definition segmentStillExists :: "sdkError + Journeysegment \<Rightarrow> bool" where
  "segmentStillExists r =
     (case r of Inl err \<Rightarrow> False | Inr journeySegment \<Rightarrow> seg_IsActive journeySegment \<noteq> Some False)"

text \<open>A confirmation read that finds the segment gone (404) or inactive.\<close>

definition segmentGone :: "sdkError + Journeysegment \<Rightarrow> bool" where
  "segmentGone r =
     (case r of
        Inl err \<Rightarrow> errResp err = Some 404
      | Inr journeySegment \<Rightarrow> seg_IsActive journeySegment = Some False)"

definition isPayload :: "'e + 'a \<Rightarrow> bool" where
  "isPayload r = (case r of Inl err \<Rightarrow> False | Inr x \<Rightarrow> True)"

definition is404 :: "sdkError + 'a \<Rightarrow> bool" where
  "is404 r = (case r of Inl err \<Rightarrow> errResp err = Some 404 | Inr x \<Rightarrow> False)"

text \<open>Concrete inputs on which the theorems below are exercised.\<close>

definition notFound :: sdkError where
  "notFound = SdkError (Some 404) ''404 Not Found''"

definition nullPlatform :: platform where
  "nullPlatform =
     \<lparr>on_GetRoutingQueue = (\<lambda>tr queueId. Inl notFound),
      on_DeleteRoutingQueue = (\<lambda>tr queueId forceDelete. None),
      on_GetRoutingQueueMembers = (\<lambda>tr queueID pageNumber pageSize. Inr None),
      on_PostRoutingQueueMembers = (\<lambda>tr queueId body doDelete. None),
      on_PatchRoutingQueueMember = (\<lambda>tr queueId memberId ringNumber. None),
      on_GetJourneySegments =
        (\<lambda>tr pageSize pageNumber. Inr \<lparr>Entities = None, PageCount = None\<rparr>),
      on_GetJourneySegment = (\<lambda>tr segmentId. Inl notFound),
      on_PatchJourneySegment = (\<lambda>tr segmentId body. None),
      on_DeleteJourneySegment = (\<lambda>tr segmentId. None),
      on_GetJourneyActionmaps =
        (\<lambda>tr pageNumber pageSize. Inr \<lparr>Entities = None, PageCount = None\<rparr>),
      on_GetJourneyActionmap = (\<lambda>tr actionMapId. Inl notFound),
      on_PatchJourneyActionmap = (\<lambda>tr actionMapId body. None),
      on_DeleteJourneyActionmap = (\<lambda>tr actionMapId. None)\<rparr>"

definition exampleData :: ResourceData where
  "exampleData =
     \<lparr>d_Id = ''q1'', d_name = ''Support'', d_division_id = ''div1'', d_description = [],
      d_members = None, d_display_name = ''Support'', d_version = 1, d_is_active = True,
      d_weight = 2, d_timeoutDelete = 20 * Second\<rparr>"

definition exampleRuntime :: runtime where
  "exampleRuntime =
     \<lparr>pollInterval = 10 * Second, readTimeout = 20 * Second, retryWhenLimit = 2,
      isVersionMismatch = (\<lambda>resp. resp = Some 409),
      CheckState = (\<lambda>expected observed. None),
      rangeOrder = (\<lambda>keys. keys),
      interfaceToJson = (\<lambda>patchActionMap. ''{}''),
      getBody = (\<lambda>resp. [])\<rparr>"

definition exampleQueue :: Queue where
  "exampleQueue = \<lparr>q_Name = ''Support'', q_DivisionId = ''div1'', q_Description = None\<rparr>"

definition exampleSegment :: Journeysegment where
  "exampleSegment =
     \<lparr>seg_Id = ''q1'', seg_IsActive = Some True, seg_DisplayName = ''Support'',
      seg_Version = 1, seg_Description = None\<rparr>"

definition exampleActionMap :: Actionmap where
  "exampleActionMap =
     \<lparr>am_Id = ''q1'', am_IsActive = True, am_DisplayName = ''Support'',
      am_Version = Some 1, am_Weight = 2\<rparr>"

text \<open>
  A platform on which the object is still visible to the first two reads after the delete
  and gone (404) from the third on.
\<close>

definition goneAfterTwoReads :: platform where
  "goneAfterTwoReads =
     nullPlatform
       \<lparr>on_GetRoutingQueue :=
          (\<lambda>tr queueId. if length tr < 3 then Inr exampleQueue else Inl notFound),
        on_GetJourneySegment :=
          (\<lambda>tr segmentId. if length tr < 3 then Inr exampleSegment else Inl notFound),
        on_GetJourneyActionmap :=
          (\<lambda>tr actionMapId. if length tr < 3 then Inr exampleActionMap else Inl notFound)\<rparr>"

text \<open>A platform on which the object never disappears.\<close>

definition neverGone :: platform where
  "neverGone =
     nullPlatform
       \<lparr>on_GetRoutingQueue := (\<lambda>tr queueId. Inr exampleQueue),
        on_GetJourneySegment := (\<lambda>tr segmentId. Inr exampleSegment),
        on_GetJourneyActionmap := (\<lambda>tr actionMapId. Inr exampleActionMap)\<rparr>"




















text \<open>
  A list cut into consecutive chunks of at most \<open>n\<close> elements, in order.
\<close>

function chunks :: "nat \<Rightarrow> 'a list \<Rightarrow> 'a list list" where
  "chunks n xs = (if n = 0 \<or> xs = [] then [] else take n xs # chunks n (drop n xs))"
  by pat_completeness auto
termination
  by (relation "measure (\<lambda>(n, xs). length xs)") auto

declare chunks.simps [simp del]

text \<open>
  A platform whose queue has the members \<open>a\<close>, \<open>b\<close> and \<open>c\<close> (on page 1 of its member
  listing), and a platform on which every batch call for members fails.
\<close>

definition membersABC :: platform where
  "membersABC =
     nullPlatform
       \<lparr>on_GetRoutingQueueMembers :=
          (\<lambda>tr queueID pageNumber pageSize.
             Inr (Some \<lparr>Entities =
                          Some (if pageNumber = 1
                                then [\<lparr>qm_Id = ''a'', qm_RingNumber = 1\<rparr>,
                                      \<lparr>qm_Id = ''b'', qm_RingNumber = 1\<rparr>,
                                      \<lparr>qm_Id = ''c'', qm_RingNumber = 1\<rparr>]
                                else []),
                        PageCount = None\<rparr>))\<rparr>"

definition postFails :: platform where
  "postFails =
     nullPlatform
       \<lparr>on_PostRoutingQueueMembers :=
          (\<lambda>tr queueId body doDelete. Some (SdkError (Some 500) ''Internal Server Error''))\<rparr>"

section \<open>The Retry Engine\<close>

text \<open>
  In the three lemmas \<open>path j\<close> is the state in which attempt \<open>j\<close> starts; attempts are
  counted from \<open>0\<close>.
\<close>

lemma retryLoop_succeeds:
  assumes "k \<le> n"
    and "\<forall>j<k. \<exists>e. operation (path j) = (Some (RetryableError e), path (Suc j))"
    and "operation (path k) = (None, s')"
  shows "retryLoop n operation (path 0) = (None, s')"
  using assms
proof (induction k arbitrary: n path)
  case 0
  then show ?case by (cases n) simp_all
next
  case (Suc k)
  from Suc.prems(1) obtain m where n: "n = Suc m" and km: "k \<le> m"
    by (cases n) auto
  from Suc.prems(2) obtain e
    where first: "operation (path 0) = (Some (RetryableError e), path (Suc 0))"
    by auto
  have rest: "\<forall>j<k. \<exists>e. operation ((path \<circ> Suc) j)
                = (Some (RetryableError e), (path \<circ> Suc) (Suc j))"
    using Suc.prems(2) by auto
  have last: "operation ((path \<circ> Suc) k) = (None, s')"
    using Suc.prems(3) by simp
  have "retryLoop m operation ((path \<circ> Suc) 0) = (None, s')"
    by (rule Suc.IH [OF km rest last])
  then show ?case using n first by simp
qed

lemma retryLoop_terminal:
  assumes "k \<le> n"
    and "\<forall>j<k. \<exists>e. operation (path j) = (Some (RetryableError e), path (Suc j))"
    and "operation (path k) = (Some (NonRetryableError reason), s')"
  shows "retryLoop n operation (path 0) = (Some reason, s')"
  using assms
proof (induction k arbitrary: n path)
  case 0
  then show ?case by (cases n) simp_all
next
  case (Suc k)
  from Suc.prems(1) obtain m where n: "n = Suc m" and km: "k \<le> m"
    by (cases n) auto
  from Suc.prems(2) obtain e
    where first: "operation (path 0) = (Some (RetryableError e), path (Suc 0))"
    by auto
  have rest: "\<forall>j<k. \<exists>e. operation ((path \<circ> Suc) j)
                = (Some (RetryableError e), (path \<circ> Suc) (Suc j))"
    using Suc.prems(2) by auto
  have last: "operation ((path \<circ> Suc) k) = (Some (NonRetryableError reason), s')"
    using Suc.prems(3) by simp
  have "retryLoop m operation ((path \<circ> Suc) 0) = (Some reason, s')"
    by (rule Suc.IH [OF km rest last])
  then show ?case using n first by simp
qed

lemma retryLoop_deadline:
  assumes "\<forall>j\<le>n. operation (path j) = (Some (RetryableError (reason j)), path (Suc j))"
  shows "retryLoop n operation (path 0) = (Some (timeoutError (reason n)), path (Suc n))"
  using assms
proof (induction n arbitrary: path reason)
  case 0
  then show ?case by simp
next
  case (Suc n)
  have first: "operation (path 0) = (Some (RetryableError (reason 0)), path (Suc 0))"
    using Suc.prems by blast
  have rest: "\<forall>j\<le>n. operation ((path \<circ> Suc) j)
                = (Some (RetryableError ((reason \<circ> Suc) j)), (path \<circ> Suc) (Suc j))"
    using Suc.prems by auto
  have "retryLoop n operation ((path \<circ> Suc) 0)
          = (Some (timeoutError ((reason \<circ> Suc) n)), (path \<circ> Suc) (Suc n))"
    by (rule Suc.IH [OF rest])
  then show ?case using first by simp
qed

lemma retryLoop_skip:
  assumes "k \<le> n"
    and "\<forall>j<k. \<exists>e. operation (path j) = (Some (RetryableError e), path (Suc j))"
  shows "retryLoop n operation (path 0) = retryLoop (n - k) operation (path k)"
  using assms
proof (induction k arbitrary: n path)
  case 0
  show ?case by simp
next
  case (Suc k)
  from Suc.prems(1) obtain m where n: "n = Suc m" and km: "k \<le> m"
    by (cases n) auto
  from Suc.prems(2) obtain e
    where first: "operation (path 0) = (Some (RetryableError e), path (Suc 0))"
    by auto
  have rest: "\<forall>j<k. \<exists>e. operation ((path \<circ> Suc) j)
                = (Some (RetryableError e), (path \<circ> Suc) (Suc j))"
    using Suc.prems(2) by auto
  have "retryLoop m operation ((path \<circ> Suc) 0) = retryLoop (m - k) operation ((path \<circ> Suc) k)"
    by (rule Suc.IH [OF km rest])
  then show ?case using n first by simp
qed

text \<open>An engine run makes its first attempt: the history grows by at least that request.\<close>

lemma retryLoop_first_request:
  assumes "\<And>s. snd (operation s) = s @ [req]"
  shows "\<exists>r extra. retryLoop n operation tr = (r, tr @ req # extra)"
proof (induction n arbitrary: tr)
  case 0
  obtain a where a: "operation tr = (a, tr @ [req])"
    using assms [of tr] by (cases "operation tr") simp
  show ?case
    using a by (cases a rule: option.exhaust; cases "the a") auto
next
  case (Suc n)
  obtain a where a: "operation tr = (a, tr @ [req])"
    using assms [of tr] by (cases "operation tr") simp
  from Suc [of "tr @ [req]"] obtain r extra where
    rec: "retryLoop n operation (tr @ [req]) = (r, (tr @ [req]) @ req # extra)"
    by blast
  show ?case
  proof (cases a)
    case None
    then show ?thesis using a by simp
  next
    case (Some e)
    then show ?thesis using a rec by (cases e) auto
  qed
qed

section \<open>Delete: confirmation polling\<close>

lemma queuePolls_Suc:
  "queuePolls tr i (Suc j) = queuePolls tr i j @ [Req_GetRoutingQueue i]"
  by (simp add: queuePolls_def replicate_append_same)

lemma segmentPolls_Suc:
  "segmentPolls tr i (Suc j) = segmentPolls tr i j @ [Req_GetJourneySegment i]"
  by (simp add: segmentPolls_def replicate_append_same)

lemma actionMapPolls_Suc:
  "actionMapPolls tr i (Suc j) = actionMapPolls tr i j @ [Req_GetJourneyActionmap i]"
  by (simp add: actionMapPolls_def replicate_append_same)

lemma deleteQueue_poll_exists:
  "isPayload (on_GetRoutingQueue api tr (d_Id d)) \<Longrightarrow>
   deleteQueue_poll api d tr =
     (Some (RetryableError (''Queue '' @ d_Id d @ '' still exists'')),
      tr @ [Req_GetRoutingQueue (d_Id d)])"
  by (auto simp: deleteQueue_poll_def GetRoutingQueue_def isPayload_def split: sum.splits)

lemma deleteQueue_poll_404:
  "is404 (on_GetRoutingQueue api tr (d_Id d)) \<Longrightarrow>
   deleteQueue_poll api d tr = (None, tr @ [Req_GetRoutingQueue (d_Id d)])"
  by (auto simp: deleteQueue_poll_def GetRoutingQueue_def is404_def split: sum.splits)

lemma deleteJourneySegment_poll_exists:
  "segmentStillExists (on_GetJourneySegment api tr (d_Id d)) \<Longrightarrow>
   deleteJourneySegment_poll api d tr =
     (Some (RetryableError (''journey segment '' @ d_Id d @ '' still exists'')),
      tr @ [Req_GetJourneySegment (d_Id d)])"
  by (auto simp: deleteJourneySegment_poll_def GetJourneySegment_def segmentStillExists_def
           split: sum.splits)

lemma deleteJourneySegment_poll_gone:
  "segmentGone (on_GetJourneySegment api tr (d_Id d)) \<Longrightarrow>
   deleteJourneySegment_poll api d tr = (None, tr @ [Req_GetJourneySegment (d_Id d)])"
  by (auto simp: deleteJourneySegment_poll_def GetJourneySegment_def segmentGone_def
                 isStatus404_def split: sum.splits)

lemma deleteJourneyActionMap_poll_exists:
  "isPayload (on_GetJourneyActionmap api tr (d_Id d)) \<Longrightarrow>
   deleteJourneyActionMap_poll api d tr =
     (Some (RetryableError (''journey action map '' @ d_Id d @ '' still exists'')),
      tr @ [Req_GetJourneyActionmap (d_Id d)])"
  by (auto simp: deleteJourneyActionMap_poll_def GetJourneyActionmap_def isPayload_def
           split: sum.splits)

lemma deleteJourneyActionMap_poll_404:
  "is404 (on_GetJourneyActionmap api tr (d_Id d)) \<Longrightarrow>
   deleteJourneyActionMap_poll api d tr = (None, tr @ [Req_GetJourneyActionmap (d_Id d)])"
  by (auto simp: deleteJourneyActionMap_poll_def GetJourneyActionmap_def is404_def
                 isStatus404_def split: sum.splits)

lemma deleteQueue_confirmed:
  assumes "on_DeleteRoutingQueue api tr (d_Id d) True = None"
    and "k \<le> d_timeoutDelete d div pollInterval rt"
    and "\<forall>j<k. isPayload (on_GetRoutingQueue api (queuePolls tr (d_Id d) j) (d_Id d))"
    and "is404 (on_GetRoutingQueue api (queuePolls tr (d_Id d) k) (d_Id d))"
  shows "deleteQueue rt api d tr = (None, queuePolls tr (d_Id d) (Suc k))"
proof -
  have "retryLoop (d_timeoutDelete d div pollInterval rt) (deleteQueue_poll api d)
          (queuePolls tr (d_Id d) 0) = (None, queuePolls tr (d_Id d) (Suc k))"
    using assms(2-4)
    by (intro retryLoop_succeeds [where k = k])
       (auto simp: deleteQueue_poll_exists deleteQueue_poll_404 queuePolls_Suc)
  then show ?thesis
    using assms(1)
    by (simp add: deleteQueue_def DeleteRoutingQueue_def RetryContext_def queuePolls_def)
qed

lemma deleteJourneySegment_confirmed:
  assumes "on_DeleteJourneySegment api tr (d_Id d) = None"
    and "k \<le> 30 * Second div pollInterval rt"
    and "\<forall>j<k. segmentStillExists
                  (on_GetJourneySegment api (segmentPolls tr (d_Id d) j) (d_Id d))"
    and "segmentGone (on_GetJourneySegment api (segmentPolls tr (d_Id d) k) (d_Id d))"
  shows "deleteJourneySegment rt api d tr = (None, segmentPolls tr (d_Id d) (Suc k))"
proof -
  have "retryLoop (30 * Second div pollInterval rt) (deleteJourneySegment_poll api d)
          (segmentPolls tr (d_Id d) 0) = (None, segmentPolls tr (d_Id d) (Suc k))"
    using assms(2-4)
    by (intro retryLoop_succeeds [where k = k])
       (auto simp: deleteJourneySegment_poll_exists deleteJourneySegment_poll_gone
                   segmentPolls_Suc)
  then show ?thesis
    using assms(1)
    by (simp add: deleteJourneySegment_def DeleteJourneySegment_def withRetries_def
                  RetryContext_def segmentPolls_def)
qed

lemma deleteJourneyActionMap_confirmed:
  assumes "on_DeleteJourneyActionmap api tr (d_Id d) = None"
    and "k \<le> 30 * Second div pollInterval rt"
    and "\<forall>j<k. isPayload (on_GetJourneyActionmap api (actionMapPolls tr (d_Id d) j) (d_Id d))"
    and "is404 (on_GetJourneyActionmap api (actionMapPolls tr (d_Id d) k) (d_Id d))"
  shows "deleteJourneyActionMap rt api d tr = (None, actionMapPolls tr (d_Id d) (Suc k))"
proof -
  have "retryLoop (30 * Second div pollInterval rt) (deleteJourneyActionMap_poll api d)
          (actionMapPolls tr (d_Id d) 0) = (None, actionMapPolls tr (d_Id d) (Suc k))"
    using assms(2-4)
    by (intro retryLoop_succeeds [where k = k])
       (auto simp: deleteJourneyActionMap_poll_exists deleteJourneyActionMap_poll_404
                   actionMapPolls_Suc)
  then show ?thesis
    using assms(1)
    by (simp add: deleteJourneyActionMap_def DeleteJourneyActionmap_def withRetries_def
                  RetryContext_def actionMapPolls_def)
qed

text \<open>
  C4. For each of the three resource types: once the delete call has succeeded, a
  confirmation read that fails with HTTP status 404 ends the Delete operation without
  an error. This holds for the first read after the delete (\<open>k = 0\<close>) and for any later
  read made before the deadline, after \<open>k\<close> reads that still found the object.
\<close>

theorem delete_then_404_is_success:
  "(on_DeleteRoutingQueue api tr (d_Id d) True = None \<and>
    k \<le> d_timeoutDelete d div pollInterval rt \<and>
    (\<forall>j<k. isPayload (on_GetRoutingQueue api (queuePolls tr (d_Id d) j) (d_Id d))) \<and>
    is404 (on_GetRoutingQueue api (queuePolls tr (d_Id d) k) (d_Id d))
    \<longrightarrow> deleteQueue rt api d tr = (None, queuePolls tr (d_Id d) (Suc k)))
   \<and>
   (on_DeleteJourneySegment api tr (d_Id d) = None \<and>
    k \<le> 30 * Second div pollInterval rt \<and>
    (\<forall>j<k. segmentStillExists
              (on_GetJourneySegment api (segmentPolls tr (d_Id d) j) (d_Id d))) \<and>
    is404 (on_GetJourneySegment api (segmentPolls tr (d_Id d) k) (d_Id d))
    \<longrightarrow> deleteJourneySegment rt api d tr = (None, segmentPolls tr (d_Id d) (Suc k)))
   \<and>
   (on_DeleteJourneyActionmap api tr (d_Id d) = None \<and>
    k \<le> 30 * Second div pollInterval rt \<and>
    (\<forall>j<k. isPayload (on_GetJourneyActionmap api (actionMapPolls tr (d_Id d) j) (d_Id d))) \<and>
    is404 (on_GetJourneyActionmap api (actionMapPolls tr (d_Id d) k) (d_Id d))
    \<longrightarrow> deleteJourneyActionMap rt api d tr = (None, actionMapPolls tr (d_Id d) (Suc k)))"
proof -
  have seg: "segmentGone r" if "is404 r" for r :: "sdkError + Journeysegment"
    using that by (cases r) (simp_all add: is404_def segmentGone_def)
  show ?thesis
    using deleteQueue_confirmed [of api tr d k rt]
          deleteJourneySegment_confirmed [of api tr d k rt]
          deleteJourneyActionMap_confirmed [of api tr d k rt] seg
    by blast
qed

theorem delete_then_404_is_success_witness:
  "on_DeleteRoutingQueue goneAfterTwoReads [] ''q1'' True = None
   \<and> on_DeleteJourneySegment goneAfterTwoReads [] ''q1'' = None
   \<and> on_DeleteJourneyActionmap goneAfterTwoReads [] ''q1'' = None
   \<and> isPayload (on_GetRoutingQueue goneAfterTwoReads (queuePolls [] ''q1'' 0) ''q1'')
   \<and> isPayload (on_GetRoutingQueue goneAfterTwoReads (queuePolls [] ''q1'' 1) ''q1'')
   \<and> is404 (on_GetRoutingQueue goneAfterTwoReads (queuePolls [] ''q1'' 2) ''q1'')
   \<and> segmentStillExists
        (on_GetJourneySegment goneAfterTwoReads (segmentPolls [] ''q1'' 0) ''q1'')
   \<and> segmentStillExists
        (on_GetJourneySegment goneAfterTwoReads (segmentPolls [] ''q1'' 1) ''q1'')
   \<and> is404 (on_GetJourneySegment goneAfterTwoReads (segmentPolls [] ''q1'' 2) ''q1'')
   \<and> isPayload (on_GetJourneyActionmap goneAfterTwoReads (actionMapPolls [] ''q1'' 0) ''q1'')
   \<and> isPayload (on_GetJourneyActionmap goneAfterTwoReads (actionMapPolls [] ''q1'' 1) ''q1'')
   \<and> is404 (on_GetJourneyActionmap goneAfterTwoReads (actionMapPolls [] ''q1'' 2) ''q1'')
   \<and> deleteQueue exampleRuntime goneAfterTwoReads exampleData []
       = (None, [Req_DeleteRoutingQueue ''q1'' True, Req_GetRoutingQueue ''q1'',
                 Req_GetRoutingQueue ''q1'', Req_GetRoutingQueue ''q1''])
   \<and> deleteJourneySegment exampleRuntime goneAfterTwoReads exampleData []
       = (None, [Req_DeleteJourneySegment ''q1'', Req_GetJourneySegment ''q1'',
                 Req_GetJourneySegment ''q1'', Req_GetJourneySegment ''q1''])
   \<and> deleteJourneyActionMap exampleRuntime goneAfterTwoReads exampleData []
       = (None, [Req_DeleteJourneyActionmap ''q1'', Req_GetJourneyActionmap ''q1'',
                 Req_GetJourneyActionmap ''q1'', Req_GetJourneyActionmap ''q1''])"
  using delete_then_404_is_success [of goneAfterTwoReads "[]" exampleData 2 exampleRuntime]
  by (simp add: goneAfterTwoReads_def nullPlatform_def exampleData_def exampleRuntime_def
        Second_def queuePolls_def segmentPolls_def actionMapPolls_def isPayload_def is404_def
        segmentStillExists_def notFound_def exampleSegment_def less_Suc_eq numeral_2_eq_2
        numeral_3_eq_3)

lemma deleteJourneySegment_deadline:
  assumes "on_DeleteJourneySegment api tr (d_Id d) = None"
    and "\<forall>j \<le> 30 * Second div pollInterval rt.
           segmentStillExists (on_GetJourneySegment api (segmentPolls tr (d_Id d) j) (d_Id d))"
  shows "deleteJourneySegment rt api d tr =
           (Some (timeoutError (''journey segment '' @ d_Id d @ '' still exists'')),
            segmentPolls tr (d_Id d) (Suc (30 * Second div pollInterval rt)))"
proof -
  have "retryLoop (30 * Second div pollInterval rt) (deleteJourneySegment_poll api d)
          (segmentPolls tr (d_Id d) 0) =
        (Some (timeoutError ((\<lambda>j. ''journey segment '' @ d_Id d @ '' still exists'')
                               (30 * Second div pollInterval rt))),
         segmentPolls tr (d_Id d) (Suc (30 * Second div pollInterval rt)))"
    using assms(2)
    by (intro retryLoop_deadline) (auto simp: deleteJourneySegment_poll_exists segmentPolls_Suc)
  then show ?thesis
    using assms(1)
    by (simp add: deleteJourneySegment_def DeleteJourneySegment_def withRetries_def
                  RetryContext_def segmentPolls_def)
qed

lemma deleteQueue_deadline:
  assumes "on_DeleteRoutingQueue api tr (d_Id d) True = None"
    and "\<forall>j \<le> d_timeoutDelete d div pollInterval rt.
           isPayload (on_GetRoutingQueue api (queuePolls tr (d_Id d) j) (d_Id d))"
  shows "deleteQueue rt api d tr =
           (Some (timeoutError (''Queue '' @ d_Id d @ '' still exists'')),
            queuePolls tr (d_Id d) (Suc (d_timeoutDelete d div pollInterval rt)))"
proof -
  have "retryLoop (d_timeoutDelete d div pollInterval rt) (deleteQueue_poll api d)
          (queuePolls tr (d_Id d) 0) =
        (Some (timeoutError ((\<lambda>j. ''Queue '' @ d_Id d @ '' still exists'')
                               (d_timeoutDelete d div pollInterval rt))),
         queuePolls tr (d_Id d) (Suc (d_timeoutDelete d div pollInterval rt)))"
    using assms(2)
    by (intro retryLoop_deadline) (auto simp: deleteQueue_poll_exists queuePolls_Suc)
  then show ?thesis
    using assms(1)
    by (simp add: deleteQueue_def DeleteRoutingQueue_def RetryContext_def queuePolls_def)
qed

lemma deleteJourneySegment_poll_request:
  "snd (deleteJourneySegment_poll api d tr) = tr @ [Req_GetJourneySegment (d_Id d)]"
  by (simp add: deleteJourneySegment_poll_def GetJourneySegment_def split: sum.splits)

lemma deleteQueue_poll_request:
  "snd (deleteQueue_poll api d tr) = tr @ [Req_GetRoutingQueue (d_Id d)]"
  by (simp add: deleteQueue_poll_def GetRoutingQueue_def split: sum.splits)

lemma deleteJourneySegment_keeps_polling:
  assumes "on_DeleteJourneySegment api tr (d_Id d) = None"
    and "k \<le> 30 * Second div pollInterval rt"
    and "\<forall>j<k. segmentStillExists
                  (on_GetJourneySegment api (segmentPolls tr (d_Id d) j) (d_Id d))"
  shows "\<exists>r extra. deleteJourneySegment rt api d tr =
                     (r, segmentPolls tr (d_Id d) (Suc k) @ extra)"
proof -
  have "retryLoop (30 * Second div pollInterval rt) (deleteJourneySegment_poll api d)
          (segmentPolls tr (d_Id d) 0) =
        retryLoop (30 * Second div pollInterval rt - k) (deleteJourneySegment_poll api d)
          (segmentPolls tr (d_Id d) k)"
    using assms(2,3)
    by (intro retryLoop_skip) (auto simp: deleteJourneySegment_poll_exists segmentPolls_Suc)
  moreover obtain r extra where
    "retryLoop (30 * Second div pollInterval rt - k) (deleteJourneySegment_poll api d)
       (segmentPolls tr (d_Id d) k) =
     (r, segmentPolls tr (d_Id d) k @ Req_GetJourneySegment (d_Id d) # extra)"
    using retryLoop_first_request
            [of "deleteJourneySegment_poll api d" "Req_GetJourneySegment (d_Id d)",
             OF deleteJourneySegment_poll_request]
    by blast
  ultimately show ?thesis
    using assms(1)
    by (simp add: deleteJourneySegment_def DeleteJourneySegment_def withRetries_def
                  RetryContext_def segmentPolls_def replicate_app_Cons_same)
qed

lemma deleteQueue_keeps_polling:
  assumes "on_DeleteRoutingQueue api tr (d_Id d) True = None"
    and "k \<le> d_timeoutDelete d div pollInterval rt"
    and "\<forall>j<k. isPayload (on_GetRoutingQueue api (queuePolls tr (d_Id d) j) (d_Id d))"
  shows "\<exists>r extra. deleteQueue rt api d tr = (r, queuePolls tr (d_Id d) (Suc k) @ extra)"
proof -
  have "retryLoop (d_timeoutDelete d div pollInterval rt) (deleteQueue_poll api d)
          (queuePolls tr (d_Id d) 0) =
        retryLoop (d_timeoutDelete d div pollInterval rt - k) (deleteQueue_poll api d)
          (queuePolls tr (d_Id d) k)"
    using assms(2,3)
    by (intro retryLoop_skip) (auto simp: deleteQueue_poll_exists queuePolls_Suc)
  moreover obtain r extra where
    "retryLoop (d_timeoutDelete d div pollInterval rt - k) (deleteQueue_poll api d)
       (queuePolls tr (d_Id d) k) =
     (r, queuePolls tr (d_Id d) k @ Req_GetRoutingQueue (d_Id d) # extra)"
    using retryLoop_first_request
            [of "deleteQueue_poll api d" "Req_GetRoutingQueue (d_Id d)",
             OF deleteQueue_poll_request]
    by blast
  ultimately show ?thesis
    using assms(1)
    by (simp add: deleteQueue_def DeleteRoutingQueue_def RetryContext_def queuePolls_def
                  replicate_app_Cons_same)
qed

text \<open>
  C5. Time is counted in polling intervals of the Retry Engine: a confirmation read is
  made at once and then once per interval while the deadline has not passed, so a
  deadline of 30 seconds admits \<open>30 * Second div pollInterval rt\<close> reads after the first.
  \<open>deleteJourneySegment\<close> polls with the deadline of 30 seconds:
  \<^item> as long as fewer reads than that have reported the segment present and active,
    the poll goes on, and a read that then finds it gone (404) or inactive ends Delete
    with success;
  \<^item> when every read up to the deadline reports the segment present and active, Delete
    ends with an error after exactly the last of these reads: the history holds one read
    per interval and no more.
  \<^item> in between, Delete does not give up: after any \<open>k\<close> reads within the deadline
    that reported the segment present and active, read \<open>k + 1\<close> is made.
  \<open>deleteQueue\<close> polls in the same way until its read fails with 404, against the delete
  timeout of the resource data.
\<close>

theorem delete_polls_until_deadline:
  "(on_DeleteJourneySegment api tr (d_Id d) = None \<and>
    k \<le> 30 * Second div pollInterval rt \<and>
    (\<forall>j<k. segmentStillExists
              (on_GetJourneySegment api (segmentPolls tr (d_Id d) j) (d_Id d))) \<and>
    segmentGone (on_GetJourneySegment api (segmentPolls tr (d_Id d) k) (d_Id d))
    \<longrightarrow> deleteJourneySegment rt api d tr = (None, segmentPolls tr (d_Id d) (Suc k)))
   \<and>
   (on_DeleteJourneySegment api tr (d_Id d) = None \<and>
    (\<forall>j \<le> 30 * Second div pollInterval rt.
       segmentStillExists (on_GetJourneySegment api (segmentPolls tr (d_Id d) j) (d_Id d)))
    \<longrightarrow> deleteJourneySegment rt api d tr =
          (Some (timeoutError (''journey segment '' @ d_Id d @ '' still exists'')),
           segmentPolls tr (d_Id d) (Suc (30 * Second div pollInterval rt))))
   \<and>
   (on_DeleteRoutingQueue api tr (d_Id d) True = None \<and>
    k \<le> d_timeoutDelete d div pollInterval rt \<and>
    (\<forall>j<k. isPayload (on_GetRoutingQueue api (queuePolls tr (d_Id d) j) (d_Id d))) \<and>
    is404 (on_GetRoutingQueue api (queuePolls tr (d_Id d) k) (d_Id d))
    \<longrightarrow> deleteQueue rt api d tr = (None, queuePolls tr (d_Id d) (Suc k)))
   \<and>
   (on_DeleteRoutingQueue api tr (d_Id d) True = None \<and>
    (\<forall>j \<le> d_timeoutDelete d div pollInterval rt.
       isPayload (on_GetRoutingQueue api (queuePolls tr (d_Id d) j) (d_Id d)))
    \<longrightarrow> deleteQueue rt api d tr =
          (Some (timeoutError (''Queue '' @ d_Id d @ '' still exists'')),
           queuePolls tr (d_Id d) (Suc (d_timeoutDelete d div pollInterval rt))))
   \<and>
   (on_DeleteJourneySegment api tr (d_Id d) = None \<and>
    k \<le> 30 * Second div pollInterval rt \<and>
    (\<forall>j<k. segmentStillExists
              (on_GetJourneySegment api (segmentPolls tr (d_Id d) j) (d_Id d)))
    \<longrightarrow> (\<exists>r extra. deleteJourneySegment rt api d tr =
                         (r, segmentPolls tr (d_Id d) (Suc k) @ extra)))
   \<and>
   (on_DeleteRoutingQueue api tr (d_Id d) True = None \<and>
    k \<le> d_timeoutDelete d div pollInterval rt \<and>
    (\<forall>j<k. isPayload (on_GetRoutingQueue api (queuePolls tr (d_Id d) j) (d_Id d)))
    \<longrightarrow> (\<exists>r extra. deleteQueue rt api d tr =
                         (r, queuePolls tr (d_Id d) (Suc k) @ extra)))"
  using deleteJourneySegment_confirmed [of api tr d k rt]
        deleteJourneySegment_deadline [of api tr d rt]
        deleteQueue_confirmed [of api tr d k rt]
        deleteQueue_deadline [of api tr d rt]
        deleteJourneySegment_keeps_polling [of api tr d k rt]
        deleteQueue_keeps_polling [of api tr d k rt]
  by blast

theorem delete_polls_until_deadline_witness:
  "on_DeleteJourneySegment goneAfterTwoReads [] ''q1'' = None
   \<and> segmentStillExists
        (on_GetJourneySegment goneAfterTwoReads (segmentPolls [] ''q1'' 0) ''q1'')
   \<and> segmentStillExists
        (on_GetJourneySegment goneAfterTwoReads (segmentPolls [] ''q1'' 1) ''q1'')
   \<and> segmentGone (on_GetJourneySegment goneAfterTwoReads (segmentPolls [] ''q1'' 2) ''q1'')
   \<and> 30 * Second div pollInterval exampleRuntime = 3
   \<and> deleteJourneySegment exampleRuntime goneAfterTwoReads exampleData []
       = (None, [Req_DeleteJourneySegment ''q1'', Req_GetJourneySegment ''q1'',
                 Req_GetJourneySegment ''q1'', Req_GetJourneySegment ''q1''])
   \<and> on_DeleteRoutingQueue goneAfterTwoReads [] ''q1'' True = None
   \<and> isPayload (on_GetRoutingQueue goneAfterTwoReads (queuePolls [] ''q1'' 0) ''q1'')
   \<and> isPayload (on_GetRoutingQueue goneAfterTwoReads (queuePolls [] ''q1'' 1) ''q1'')
   \<and> is404 (on_GetRoutingQueue goneAfterTwoReads (queuePolls [] ''q1'' 2) ''q1'')
   \<and> d_timeoutDelete exampleData div pollInterval exampleRuntime = 2
   \<and> deleteQueue exampleRuntime goneAfterTwoReads exampleData []
       = (None, [Req_DeleteRoutingQueue ''q1'' True, Req_GetRoutingQueue ''q1'',
                 Req_GetRoutingQueue ''q1'', Req_GetRoutingQueue ''q1''])
   \<and> on_DeleteJourneySegment neverGone [] ''q1'' = None
   \<and> segmentStillExists (on_GetJourneySegment neverGone (segmentPolls [] ''q1'' 0) ''q1'')
   \<and> segmentStillExists (on_GetJourneySegment neverGone (segmentPolls [] ''q1'' 1) ''q1'')
   \<and> segmentStillExists (on_GetJourneySegment neverGone (segmentPolls [] ''q1'' 2) ''q1'')
   \<and> segmentStillExists (on_GetJourneySegment neverGone (segmentPolls [] ''q1'' 3) ''q1'')
   \<and> deleteJourneySegment exampleRuntime neverGone exampleData []
       = (Some (timeoutError ''journey segment q1 still exists''),
          [Req_DeleteJourneySegment ''q1'', Req_GetJourneySegment ''q1'',
           Req_GetJourneySegment ''q1'', Req_GetJourneySegment ''q1'',
           Req_GetJourneySegment ''q1''])
   \<and> on_DeleteRoutingQueue neverGone [] ''q1'' True = None
   \<and> isPayload (on_GetRoutingQueue neverGone (queuePolls [] ''q1'' 0) ''q1'')
   \<and> isPayload (on_GetRoutingQueue neverGone (queuePolls [] ''q1'' 1) ''q1'')
   \<and> isPayload (on_GetRoutingQueue neverGone (queuePolls [] ''q1'' 2) ''q1'')
   \<and> deleteQueue exampleRuntime neverGone exampleData []
       = (Some (timeoutError ''Queue q1 still exists''),
          [Req_DeleteRoutingQueue ''q1'' True, Req_GetRoutingQueue ''q1'',
           Req_GetRoutingQueue ''q1'', Req_GetRoutingQueue ''q1''])
   \<and> (\<exists>r extra. deleteJourneySegment exampleRuntime goneAfterTwoReads exampleData []
         = (r, [Req_DeleteJourneySegment ''q1'', Req_GetJourneySegment ''q1'',
                Req_GetJourneySegment ''q1'', Req_GetJourneySegment ''q1''] @ extra))
   \<and> (\<exists>r extra. deleteQueue exampleRuntime goneAfterTwoReads exampleData []
         = (r, [Req_DeleteRoutingQueue ''q1'' True, Req_GetRoutingQueue ''q1'',
                Req_GetRoutingQueue ''q1'', Req_GetRoutingQueue ''q1''] @ extra))"
  using delete_polls_until_deadline [of goneAfterTwoReads "[]" exampleData 2 exampleRuntime]
        delete_polls_until_deadline [of neverGone "[]" exampleData 0 exampleRuntime]
  by (simp add: goneAfterTwoReads_def neverGone_def nullPlatform_def exampleData_def
        exampleRuntime_def Second_def queuePolls_def segmentPolls_def isPayload_def is404_def
        segmentStillExists_def segmentGone_def notFound_def exampleSegment_def less_Suc_eq
        le_Suc_eq numeral_2_eq_2 numeral_3_eq_3)

section \<open>Read: a segment that is semantically deleted\<close>

lemma readJourneySegment_attempt_404:
  "is404 (on_GetJourneySegment api tr (d_Id d)) \<Longrightarrow>
   \<exists>e. readJourneySegment_attempt rt api (d, tr) =
         (Some (RetryableError e), d, tr @ [Req_GetJourneySegment (d_Id d)])"
  by (auto simp: readJourneySegment_attempt_def GetJourneySegment_def is404_def isStatus404_def
           split: sum.splits)




section \<open>Membership reconciliation\<close>

text \<open>
  C10. When the \<open>members\<close> attribute is not set, \<open>updateQueueMembers\<close> returns success at
  once and issues no remote call: the history of requests is unchanged.
\<close>

theorem updateQueueMembers_unset_is_noop:
  "d_members d = None \<Longrightarrow> updateQueueMembers rt api d tr = Some (None, tr)"
  by (simp add: updateQueueMembers_def)

theorem updateQueueMembers_unset_is_noop_witness:
  "d_members exampleData = None
   \<and> updateQueueMembers exampleRuntime neverGone exampleData [] = Some (None, [])"
proof -
  have unset: "d_members exampleData = None"
    by (simp add: exampleData_def)
  show ?thesis
    using unset updateQueueMembers_unset_is_noop [OF unset, of exampleRuntime neverGone "[]"]
    by simp
qed

section \<open>Update: optimistic-concurrency versioning\<close>










section \<open>Paginated listing\<close>





























section \<open>Membership reconciliation: what is submitted\<close>

lemma rangeAppend_result:
  "rangeAppend idVar xs h updateChunk =
     (if xs = [] then h else h\<lparr>cell := (cell h)(idVar := last xs)\<rparr>,
      updateChunk @ replicate (length xs) \<lparr>we_Id = idVar\<rparr>)"
proof (induction xs arbitrary: h updateChunk)
  case Nil
  show ?case by simp
next
  case (Cons x xs)
  show ?case
    by (cases "xs = []") (simp_all add: Cons replicate_app_Cons_same)
qed

text \<open>
  Every entity of a chunk points to the one variable \<open>id\<close>, which holds the last
  element of the chunk when the request is made: the body carries that id once for each
  element of the chunk.
\<close>

lemma bodyIds_rangeAppend:
  "xs \<noteq> [] \<Longrightarrow>
   bodyIds (fst (rangeAppend idVar xs h [])) (snd (rangeAppend idVar xs h [])) =
     replicate (length xs) (last xs)"
  by (simp add: rangeAppend_result bodyIds_def)

lemma chunks_Nil: "chunks n [] = []"
  by (subst chunks.simps) simp

lemma updateMembersInChunks_loop_submits:
  "updateMembersInChunks_loop api queueID membersToUpdate remove i h tr =
     (None,
      tr @ map (\<lambda>c. Req_PostRoutingQueueMembers queueID (replicate (length c) (last c)) remove)
             (chunks 100 (drop i membersToUpdate)))"
proof (induction "length membersToUpdate - i" arbitrary: i h tr rule: less_induct)
  case less
  show ?case
  proof (cases "i < length membersToUpdate")
    case False
    then show ?thesis
      by (subst updateMembersInChunks_loop.simps) (simp add: chunks_Nil)
  next
    case True
    define endIdx where
      "endIdx = (if i + maxBatchSize > length membersToUpdate
                 then length membersToUpdate else i + maxBatchSize)"
    define chunk where "chunk = take (endIdx - i) (drop i membersToUpdate)"
    have chunk: "chunk = take 100 (drop i membersToUpdate)"
      using True by (auto simp: chunk_def endIdx_def maxBatchSize_def)
    have nonempty: "chunk \<noteq> []"
      using True by (simp add: chunk)
    define built where "built = rangeAppend (fst (newVar h)) chunk (snd (newVar h)) []"
    have body: "bodyIds (fst built) (snd built) = replicate (length chunk) (last chunk)"
      unfolding built_def by (rule bodyIds_rangeAppend [OF nonempty])
    have len: "length (snd built) > 0"
      using nonempty by (simp add: built_def rangeAppend_result)
    define tr' where
      "tr' = tr @ [Req_PostRoutingQueueMembers queueID
                     (replicate (length chunk) (last chunk)) remove]"
    have smaller: "length membersToUpdate - (i + maxBatchSize) < length membersToUpdate - i"
      using True by (simp add: maxBatchSize_def)
    have ih: "updateMembersInChunks_loop api queueID membersToUpdate remove
                (i + maxBatchSize) (fst built) tr' =
              (None,
               tr' @ map (\<lambda>c. Req_PostRoutingQueueMembers queueID
                                 (replicate (length c) (last c)) remove)
                       (chunks 100 (drop (i + maxBatchSize) membersToUpdate)))"
      by (rule less.hyps [OF smaller])
    have step: "updateMembersInChunks_loop api queueID membersToUpdate remove i h tr =
                updateMembersInChunks_loop api queueID membersToUpdate remove
                  (i + maxBatchSize) (fst built) tr'"
      using True len body
      by (subst updateMembersInChunks_loop.simps)
         (simp add: Let_def built_def chunk_def endIdx_def tr'_def PostRoutingQueueMembers_def)
    have unfold: "chunks 100 (drop i membersToUpdate) =
                  chunk # chunks 100 (drop (i + maxBatchSize) membersToUpdate)"
      using True
      by (subst chunks.simps) (simp add: chunk maxBatchSize_def add.commute)
    show ?thesis
      by (simp only: step ih unfold) (simp add: tr'_def)
  qed
qed

lemma updateMembersInChunks_submits:
  "updateMembersInChunks api queueID membersToUpdate remove tr =
     (None,
      tr @ map (\<lambda>c. Req_PostRoutingQueueMembers queueID (replicate (length c) (last c)) remove)
             (chunks 100 membersToUpdate))"
  by (simp add: updateMembersInChunks_def updateMembersInChunks_loop_submits)

text \<open>
  The chunks themselves are consecutive and in order: together they are the list, and
  none is empty or longer than \<open>n\<close>.
\<close>

lemma concat_chunks: "0 < n \<Longrightarrow> concat (chunks n xs) = xs"
proof (induction n xs rule: chunks.induct)
  case (1 n xs)
  then show ?case
    by (subst chunks.simps) auto
qed

lemma chunks_length_le: "c \<in> set (chunks n xs) \<Longrightarrow> length c \<le> n \<and> c \<noteq> []"
proof (induction n xs rule: chunks.induct)
  case (1 n xs)
  show ?case
  proof (cases "n = 0 \<or> xs = []")
    case True
    then show ?thesis using "1.prems" by (subst (asm) chunks.simps) simp
  next
    case False
    then have "chunks n xs = take n xs # chunks n (drop n xs)"
      by (subst chunks.simps) simp
    then show ?thesis using "1.prems" "1.IH" False by auto
  qed
qed

lemma chunks_250:
  assumes "length xs = 250"
  shows "chunks 100 xs = [take 100 xs, take 100 (drop 100 xs), drop 200 xs]"
proof -
  have "chunks 100 xs = take 100 xs # chunks 100 (drop 100 xs)"
    using assms by (subst chunks.simps) auto
  moreover have "chunks 100 (drop 100 xs) =
                   take 100 (drop 100 xs) # chunks 100 (drop 200 xs)"
    using assms by (subst chunks.simps) auto
  moreover have "chunks 100 (drop 200 xs) = [drop 200 xs]"
    using assms by (subst chunks.simps) (auto simp: chunks_Nil)
  ultimately show ?thesis by simp
qed

lemma updateMembersInChunks_250:
  assumes "length membersToUpdate = 250"
  shows "updateMembersInChunks api queueID membersToUpdate remove tr =
           (None,
            tr @ [Req_PostRoutingQueueMembers queueID
                    (replicate 100 (membersToUpdate ! 99)) remove,
                  Req_PostRoutingQueueMembers queueID
                    (replicate 100 (membersToUpdate ! 199)) remove,
                  Req_PostRoutingQueueMembers queueID
                    (replicate 50 (membersToUpdate ! 249)) remove])"
proof -
  have n1: "take 100 membersToUpdate \<noteq> []"
    and n2: "take 100 (drop 100 membersToUpdate) \<noteq> []"
    and n3: "drop 200 membersToUpdate \<noteq> []"
    using assms by auto
  have l1: "last (take 100 membersToUpdate) = membersToUpdate ! 99"
    using assms by (simp add: last_conv_nth [OF n1])
  have l2: "last (take 100 (drop 100 membersToUpdate)) = membersToUpdate ! 199"
    using assms by (simp add: last_conv_nth [OF n2])
  have l3: "last (drop 200 membersToUpdate) = membersToUpdate ! 249"
    using assms by (simp add: last_conv_nth [OF n3])
  show ?thesis
    using assms
    by (simp add: updateMembersInChunks_submits chunks_250 l1 l2 l3)
qed

lemma chunks_single: "xs \<noteq> [] \<Longrightarrow> length xs \<le> n \<Longrightarrow> chunks n xs = [xs]"
  by (subst chunks.simps) (cases xs, auto simp: chunks_Nil)

text \<open>
  C2. Batch chunking is to submit the member list in consecutive chunks of at most 100
  ids, in the original order. \<open>updateMembersInChunks\<close> makes one call per chunk, of the
  right size (\<open>updateMembersInChunks_submits\<close>, \<open>updateMembersInChunks_250\<close>), but the
  ids in a body are not those of the chunk: for \<open>membersToUpdate = ["u1", "u2", "u3"]\<close>
  the one call made names \<open>u3\<close> three times.
\<close>

theorem chunk_body_repeats_last_id:
  "updateMembersInChunks nullPlatform ''q1'' [''u1'', ''u2'', ''u3''] False [] =
     (None, [Req_PostRoutingQueueMembers ''q1'' [''u3'', ''u3'', ''u3''] False])"
  by code_simp

lemma getRoutingQueueMembers_membersABC:
  "getRoutingQueueMembers membersABC ''q1'' [] =
     Some (Inr [\<lparr>qm_Id = ''a'', qm_RingNumber = 1\<rparr>, \<lparr>qm_Id = ''b'', qm_RingNumber = 1\<rparr>,
                \<lparr>qm_Id = ''c'', qm_RingNumber = 1\<rparr>],
           [Req_GetRoutingQueueMembers ''q1'' 1 100, Req_GetRoutingQueueMembers ''q1'' 2 100])"
  by (simp add: getRoutingQueueMembers_def getRoutingQueueMembers_loop.simps
        sdkGetRoutingQueueMembers_def membersABC_def nullPlatform_def)

text \<open>
  C1. Membership reconciliation is to submit for removal exactly the remote members that
  are not configured, then for addition exactly the configured members that are not
  remote. With the remote members \<open>a\<close>, \<open>b\<close>, \<open>c\<close> and the configured members \<open>c\<close>,
  \<open>d\<close>, \<open>e\<close> (ring number 1 throughout) \<open>updateQueueMembers\<close> lists the members,
  then removes, then adds, but the removal names \<open>b\<close> twice and the addition \<open>e\<close>
  twice: \<open>a\<close> is never submitted for removal and \<open>d\<close> never for addition.
\<close>

theorem reconciliation_submits_last_ids:
  "updateQueueMembers exampleRuntime membersABC
     (exampleData\<lparr>d_members := Some [(''c'', 1), (''d'', 1), (''e'', 1)]\<rparr>) [] =
   Some (None,
         [Req_GetRoutingQueueMembers ''q1'' 1 100, Req_GetRoutingQueueMembers ''q1'' 2 100,
          Req_PostRoutingQueueMembers ''q1'' [''b'', ''b''] True,
          Req_PostRoutingQueueMembers ''q1'' [''e'', ''e''] False])"
  by (simp add: updateQueueMembers_def Let_def exampleData_def getRoutingQueueMembers_membersABC
        sliceDifference_def updateMembersInChunks_submits chunks_single memberRingNums_def
        exampleRuntime_def)

lemma getRoutingQueueMembers_postFails:
  "getRoutingQueueMembers postFails ''q1'' [] =
     Some (Inr [], [Req_GetRoutingQueueMembers ''q1'' 1 100])"
  by (simp add: getRoutingQueueMembers_def getRoutingQueueMembers_loop.simps
        sdkGetRoutingQueueMembers_def postFails_def nullPlatform_def)

text \<open>
  C9. A failed remote call of a create, update or delete path is to reach the caller as
  an error. With one configured member, no remote members, and a platform on which the
  batch call for members fails with status 500, \<open>updateQueueMembers\<close> returns success:
  the failure of \<open>PostRoutingQueueMembers\<close> is dropped.
\<close>

theorem batch_failure_is_discarded:
  "on_PostRoutingQueueMembers postFails [Req_GetRoutingQueueMembers ''q1'' 1 100] ''q1''
     [''u1''] False = Some (SdkError (Some 500) ''Internal Server Error'')
   \<and> updateQueueMembers exampleRuntime postFails
         (exampleData\<lparr>d_members := Some [(''u1'', 1)]\<rparr>) [] =
       Some (None,
             [Req_GetRoutingQueueMembers ''q1'' 1 100,
              Req_PostRoutingQueueMembers ''q1'' [''u1''] False])"
  by (simp add: updateQueueMembers_def Let_def exampleData_def getRoutingQueueMembers_postFails
        sliceDifference_def updateMembersInChunks_submits chunks_single memberRingNums_def
        exampleRuntime_def)
     (simp add: postFails_def nullPlatform_def)

section \<open>Read: a 404 after Create\<close>

lemma readJourneyActionMap_attempt_404:
  "is404 (on_GetJourneyActionmap api tr (d_Id d)) \<Longrightarrow>
   \<exists>e. readJourneyActionMap_attempt rt api (d, tr) =
         (Some (RetryableError e), d, tr @ [Req_GetJourneyActionmap (d_Id d)])"
  by (auto simp: readJourneyActionMap_attempt_def GetJourneyActionmap_def is404_def
                 isStatus404_def split: sum.splits)

text \<open>
  The reads of journey segments and of journey action maps classify a 404 as retryable
  (\<open>readJourneySegment_attempt_404\<close>, \<open>readJourneyActionMap_attempt_404\<close>), and the engine
  repeats such a read until the deadline.
\<close>

lemma readJourneySegment_404_until_deadline:
  assumes "\<forall>j \<le> readTimeout rt div pollInterval rt.
             is404 (on_GetJourneySegment api
                      (tr @ replicate j (Req_GetJourneySegment (d_Id d))) (d_Id d))"
  shows "\<exists>e. readJourneySegment rt api d tr =
           (Some (timeoutError e), d,
            tr @ replicate (Suc (readTimeout rt div pollInterval rt))
                   (Req_GetJourneySegment (d_Id d)))"
proof -
  define path where "path j = (d, tr @ replicate j (Req_GetJourneySegment (d_Id d)))" for j
  have "\<forall>j \<le> readTimeout rt div pollInterval rt.
          \<exists>e. readJourneySegment_attempt rt api (path j) = (Some (RetryableError e), path (Suc j))"
  proof (intro allI impI)
    fix j assume "j \<le> readTimeout rt div pollInterval rt"
    then have "is404 (on_GetJourneySegment api
                        (tr @ replicate j (Req_GetJourneySegment (d_Id d))) (d_Id d))"
      using assms by blast
    from readJourneySegment_attempt_404 [OF this, of rt]
    show "\<exists>e. readJourneySegment_attempt rt api (path j)
                 = (Some (RetryableError e), path (Suc j))"
      by (simp add: path_def replicate_append_same)
  qed
  then obtain reason where
    "\<forall>j \<le> readTimeout rt div pollInterval rt.
       readJourneySegment_attempt rt api (path j)
         = (Some (RetryableError (reason j)), path (Suc j))"
    by metis
  then have "retryLoop (readTimeout rt div pollInterval rt) (readJourneySegment_attempt rt api)
               (path 0) =
             (Some (timeoutError (reason (readTimeout rt div pollInterval rt))),
              path (Suc (readTimeout rt div pollInterval rt)))"
    by (rule retryLoop_deadline)
  then show ?thesis
    by (auto simp: readJourneySegment_def withRetriesForRead_def withRetries_def
                   RetryContext_def path_def)
qed

text \<open>
  C3. A read that fails with status 404 right after Create is to be retried until the
  deadline, for every resource type. \<open>readQueue\<close>, which \<open>createQueue\<close> ends with, is
  not run under the Retry Engine: when \<open>GetRoutingQueue\<close> fails with 404 it returns the
  error after this one read.
\<close>

theorem readQueue_404_is_surfaced:
  "on_GetRoutingQueue nullPlatform [] ''q1'' = Inl (SdkError (Some 404) ''404 Not Found'')
   \<and> readQueue nullPlatform exampleData [] =
       Some (Some ''Failed to read user q1: 404 Not Found'', exampleData,
             [Req_GetRoutingQueue ''q1''])"
  by (simp add: readQueue_def GetRoutingQueue_def nullPlatform_def notFound_def exampleData_def)

section \<open>The other branches\<close>

text \<open>
  \<open>updateJourneySegment\<close> sends its patch at once, with the version held in the resource
  data, and returns the error of a rejected patch without another attempt.
\<close>

lemma updateJourneySegment_patches_directly:
  assumes "on_PatchJourneySegment api tr (d_Id d) (buildSdkPatchSegment d) = Some e"
  shows "updateJourneySegment rt api d tr =
           (Some (''Error updating journey segment '' @ fmtStringPointer @ '': '' @ errMsg e),
            d, tr @ [Req_PatchJourneySegment (d_Id d) (buildSdkPatchSegment d)])"
    and "ps_Version (buildSdkPatchSegment d) = d_version d"
  using assms
  by (simp_all add: updateJourneySegment_def PatchJourneySegment_def buildSdkPatchSegment_def)

text \<open>
  For an action map \<open>is_active\<close> is an attribute like any other: a read that returns an
  inactive action map flattens it into the resource data and keeps the identifier.
\<close>

lemma readJourneyActionMap_attempt_keeps_id:
  assumes "on_GetJourneyActionmap api tr (d_Id d) = Inr actionMap"
  shows "readJourneyActionMap_attempt rt api (d, tr) =
           (CheckState rt d (flattenActionMap d actionMap), flattenActionMap d actionMap,
            tr @ [Req_GetJourneyActionmap (d_Id d)])"
    and "d_Id (flattenActionMap d actionMap) = d_Id d"
    and "d_is_active (flattenActionMap d actionMap) = am_IsActive actionMap"
  using assms
  by (simp_all add: readJourneyActionMap_attempt_def GetJourneyActionmap_def
                    flattenActionMap_def)

text \<open>
  The ring-number update, unlike the batch call, returns the failure of its remote call,
  with the queue and the user named in the message.
\<close>

lemma updateQueueUserRingNum_propagates:
  assumes "on_PatchRoutingQueueMember api tr queueID userID ringNum = Some e"
  shows "updateQueueUserRingNum api queueID userID ringNum tr =
           (Some (''Failed to update ring number for queue '' @ queueID @ '' user '' @ userID
                    @ '': '' @ errMsg e),
            tr @ [Req_PatchRoutingQueueMember queueID userID ringNum])"
  using assms
  by (simp add: updateQueueUserRingNum_def PatchRoutingQueueMember_def)

end
